theory Spec2Isabelle
  imports Complex_Main
begin

section \<open>The search-query worker of 4CAT: \<open>backend/abstract/string_query.py\<close>\<close>

text \<open>
  A shallow embedding of the class \<open>StringQuery\<close>. Every method is a function that returns
  the list of effects it performed, in order, together with its outcome: either an
  uncaught Python exception (\<open>Inl\<close>) or the returned value (\<open>Inr\<close>).

  Conventions.
  \<^item> The query parameters are the dictionary \<open>self.query.get_parameters()\<close>. The keys the
    code reads by subscript without a test are fields of a record; the keys it may find
    absent are \<open>option\<close> fields, and a subscript on an absent key raises \<open>KeyError\<close>.
  \<^item> Python floats are modelled as reals: rounding is not modelled, so a density is
    compared with the percentage exactly where the code compares two doubles.
  \<^item> A log effect keeps the severity and the format string of the message as the source
    writes it; the formatted arguments (which include wall-clock times) are not modelled.
  \<^item> The collaborators that are not part of this file (the data set, the job, the
    relational store, the three abstract fetch methods) are fields of the record \<open>env\<close>.
\<close>

subsection \<open>Data\<close>

text \<open>A row of the full-text index: the keys \<open>post_id\<close> and \<open>thread_id\<close>.\<close>

record sphinx_row =
  sphinx_post_id :: int
  sphinx_thread_id :: int

text \<open>A row of the posts table, with the columns of \<open>return_cols\<close>; the column \<open>id\<close> is \<open>post_id\<close>.\<close>

record post =
  thread_id :: int
  post_id :: int
  timestamp :: int
  body :: string
  subject :: string
  author :: string
  image_file :: string
  image_md5 :: string
  country_code :: string
  country_name :: string

text \<open>A row of the threads table as \<open>filter_dense\<close> selects it: the columns \<open>id\<close> and \<open>num_replies\<close>.\<close>

record thread_row =
  thread_row_id :: int
  num_replies :: int

text \<open>The query parameters.\<close>

record params =
  min_date :: int
  max_date :: int
  board :: string
  body_query :: string
  subject_query :: string
  full_thread :: bool
  dense_threads :: bool
  dense_percentage :: real
  dense_length :: int
  random_amount :: "int option"
  country_flag :: "string option"
  dense_country_percentage :: "real option"

datatype error = ZeroDivisionError | KeyError string

text \<open>The two exceptions of the index connection that \<open>execute_string_query\<close> catches.\<close>

datatype sphinx_exception = OperationalError | ProgrammingError string

text \<open>A positional argument of a database query.\<close>

datatype sqlarg = SqlInt int | SqlStr string | SqlTuple "string list"

datatype level = Info | Error

datatype event =
    UpdateStatus string
  | Log level string
  | UpdateVersion string
  | SphinxConnect
  | SphinxClose
  | FetchSphinx string "sqlarg list"
  | FetchPosts "int list"
  | FetchThreads "int list"
  | DbFetchall string "sqlarg list"
  | PostsToCsv "post list" string
  | QueryFinish nat
  | JobFinish
  | Call string

record dataset =
  is_finished :: bool
  get_parameters :: params
  get_results_path :: string

record env =
  remote_id :: string
  DataSet :: "dataset option"
  get_software_version :: string
  prefix :: string
  fetch_sphinx :: "string \<Rightarrow> sqlarg list \<Rightarrow> sphinx_exception + sphinx_row list"
  fetch_posts :: "int list \<Rightarrow> post list"
  fetch_threads :: "int list \<Rightarrow> post list"
  db_fetchall_posts :: "string \<Rightarrow> sqlarg list \<Rightarrow> post list"
  db_fetchall_threads :: "string \<Rightarrow> sqlarg list \<Rightarrow> thread_row list"

subsection \<open>Strings\<close>

text \<open>\<open>str(n)\<close> and \<open>"%i" % n\<close> for integers.\<close>

fun str_nat :: "nat \<Rightarrow> string" where
  "str_nat n =
     (if n < 10 then [char_of (48 + n)]
      else str_nat (n div 10) @ [char_of (48 + n mod 10)])"

declare str_nat.simps [simp del]

definition str_int :: "int \<Rightarrow> string" where
  "str_int i = (if i < 0 then CHR ''-'' # str_nat (nat (- i)) else str_nat (nat i))"

text \<open>\<open>sep.join(xs)\<close>.\<close>

fun str_join :: "string \<Rightarrow> string list \<Rightarrow> string" where
  "str_join sep [] = []"
| "str_join sep [x] = x"
| "str_join sep (x # y # ys) = x @ sep @ str_join sep (y # ys)"

definition return_cols :: "string list" where
  "return_cols = [''thread_id'', ''id'', ''timestamp'', ''body'', ''subject'', ''author'',
     ''image_file'', ''image_md5'', ''country_code'', ''country_name'']"

subsection \<open>Messages\<close>

text \<open>
  The status texts (\<open>self.query.update_status\<close>) and the format strings of the log messages
  (\<open>self.log.info\<close>, \<open>self.log.error\<close>), as the source writes them. \<open>log_parameters\<close> stands
  for the message \<open>str(query_parameters)\<close>, which has no format string.
\<close>

definition log_filtering :: string where
  "log_filtering = ''Filtering %s-dense threads from %i threads...''"

definition log_filtering_finished :: string where
  "log_filtering_finished = ''Dense thread filtering finished, %i threads left.''"

definition status_collected :: string where
  "status_collected = ''Post data collected''"

definition log_posts_finished :: string where
  "log_posts_finished = ''Full posts query finished in %i seconds.''"

definition status_no_results_found :: string where
  "status_no_results_found = ''Query finished, but no results were found.''"

definition log_running_posts :: string where
  "log_running_posts = ''Running full posts query''"

definition status_filtering :: string where
  "status_filtering = ''Post data collected. Filtering dense threads''"

definition status_searching :: string where
  "status_searching = ''Searching for matches''"

definition status_timed_out :: string where
  "status_timed_out = ''Your query timed out. This is likely because it matches too many posts. Try again with a narrower date range or a more specific search query.''"

definition log_timed_out :: string where
  "log_timed_out = ''Sphinx query (body: %s/subject: %s) timed out after %i seconds''"

definition status_error :: string where
  "status_error = ''Error during query. 4CAT admins have been notified; try again later.''"

definition log_crash :: string where
  "log_crash = ''Sphinx crash during query %s: %s''"

definition log_sphinx_finished :: string where
  "log_sphinx_finished = ''Sphinx query finished in %i seconds, %i results.''"

definition status_random :: string where
  "status_random = ''Fetching random posts''"

definition status_country :: string where
  "status_country = ''Querying database for country-specific posts''"

definition log_nonexistent :: string where
  "log_nonexistent = ''Query job %s refers to non-existent query, finishing.''"

definition log_already_finished :: string where
  "log_already_finished = ''Worker started for query %s, but query is already finished''"

definition log_parameters :: string where
  "log_parameters = ''str(query_parameters)''"

definition status_writing :: string where
  "status_writing = ''Writing posts to result file''"

definition status_available :: string where
  "status_available = ''Query finished, results are available.''"

definition status_none_found :: string where
  "status_none_found = ''Query finished, no results found.''"

definition status_found :: "nat \<Rightarrow> string" where
  "status_found n = ''Found '' @ str_nat n @ '' matches. Collecting post data''"

definition status_country_found :: "nat \<Rightarrow> string" where
  "status_country_found n = ''Post data collected. '' @ str_nat n @ '' country-specific posts found.''"

subsection \<open>\<open>escape_for_sphinx\<close>\<close>

text \<open>
  The character class of the pattern \<open>([=\(\)|\-!@~\"&/\\\^\$\=])\<close>:
  \<open>= ( ) | - ! @ ~ " & / \ ^ $\<close> (the \<open>=\<close> is listed twice).
\<close>

definition backslash :: char where
  "backslash = CHR 0x5C"

definition special_chars :: "char list" where
  "special_chars = [CHR ''='', CHR ''('', CHR '')'', CHR ''|'', CHR ''-'', CHR ''!'', CHR ''@'',
     CHR ''~'', CHR 0x22, CHR ''&'', CHR ''/'', CHR 0x5C, CHR ''^'', CHR ''$'', CHR ''='']"

text \<open>
  \<open>re.sub(pattern, r"\\\1", string)\<close>: the string is scanned from the left; a character of
  the class is replaced by a backslash followed by the character itself (group 1), any
  other character is copied.
\<close>

fun escape_for_sphinx :: "string \<Rightarrow> string" where
  "escape_for_sphinx [] = []"
| "escape_for_sphinx (c # cs) =
     (if c \<in> set special_chars then backslash # c # escape_for_sphinx cs
      else c # escape_for_sphinx cs)"

subsection \<open>Dense-thread filters\<close>

text \<open>\<open>Counter(thread_ids)[x]\<close>: the multiplicity of \<open>x\<close>, 0 for a missing key.\<close>

definition Counter :: "int list \<Rightarrow> int \<Rightarrow> nat" where
  "Counter xs x = count_list xs x"

text \<open>
  The loop of \<open>filter_dense\<close> over \<open>total_posts\<close>, with the list \<open>qualified_threads\<close> built so
  far. The quotient \<open>keyword_posts[id] / num_replies\<close> raises \<open>ZeroDivisionError\<close> when
  \<open>num_replies\<close> is 0.
\<close>

fun filter_dense_loop :: "(int \<Rightarrow> nat) \<Rightarrow> real \<Rightarrow> int \<Rightarrow> thread_row list \<Rightarrow> int list \<Rightarrow> error + int list" where
  "filter_dense_loop keyword_posts percentage length' [] qualified_threads = Inr qualified_threads"
| "filter_dense_loop keyword_posts percentage length' (total_post # rest) qualified_threads =
     (if num_replies total_post \<ge> length' then
        (if num_replies total_post = 0 then Inl ZeroDivisionError
         else
           (let thread_density =
                  real (keyword_posts (thread_row_id total_post)) / real_of_int (num_replies total_post) * 100
            in if thread_density \<ge> percentage
               then filter_dense_loop keyword_posts percentage length' rest
                      (qualified_threads @ [thread_row_id total_post])
               else filter_dense_loop keyword_posts percentage length' rest qualified_threads))
      else filter_dense_loop keyword_posts percentage length' rest qualified_threads)"

definition thread_stats_sql :: "env \<Rightarrow> string" where
  "thread_stats_sql e = ''SELECT id, num_replies FROM threads_'' @ prefix e @ '' WHERE id IN %s GROUP BY id''"

definition filter_dense :: "env \<Rightarrow> int list \<Rightarrow> string \<Rightarrow> real \<Rightarrow> int \<Rightarrow> event list \<times> (error + int list)" where
  "filter_dense e thread_ids keyword percentage length' =
     (let keyword_posts = Counter thread_ids;
          args = [SqlTuple (map str_int thread_ids)];
          total_posts = db_fetchall_threads e (thread_stats_sql e) args;
          tr = [Log Info log_filtering,
                DbFetchall (thread_stats_sql e) args]
      in case filter_dense_loop keyword_posts percentage length' total_posts [] of
           Inl err \<Rightarrow> (tr, Inl err)
         | Inr qualified_threads \<Rightarrow>
             (tr @ [Log Info log_filtering_finished],
              Inr qualified_threads))"

text \<open>The loop of \<open>filter_dense_country\<close>: the same without the length test.\<close>

fun filter_dense_country_loop :: "(int \<Rightarrow> nat) \<Rightarrow> real \<Rightarrow> thread_row list \<Rightarrow> int list \<Rightarrow> error + int list" where
  "filter_dense_country_loop country_posts percentage [] qualified_threads = Inr qualified_threads"
| "filter_dense_country_loop country_posts percentage (total_post # rest) qualified_threads =
     (if num_replies total_post = 0 then Inl ZeroDivisionError
      else
        (let thread_density =
               real (country_posts (thread_row_id total_post)) / real_of_int (num_replies total_post) * 100
         in if thread_density \<ge> percentage
            then filter_dense_country_loop country_posts percentage rest
                   (qualified_threads @ [thread_row_id total_post])
            else filter_dense_country_loop country_posts percentage rest qualified_threads))"

definition filter_dense_country :: "env \<Rightarrow> int list \<Rightarrow> sqlarg \<Rightarrow> real \<Rightarrow> event list \<times> (error + int list)" where
  "filter_dense_country e thread_ids country percentage =
     (let country_posts = Counter thread_ids;
          args = [SqlTuple (map str_int thread_ids)];
          total_posts = db_fetchall_threads e (thread_stats_sql e) args;
          tr = [Log Info log_filtering,
                DbFetchall (thread_stats_sql e) args]
      in case filter_dense_country_loop country_posts percentage total_posts [] of
           Inl err \<Rightarrow> (tr, Inl err)
         | Inr qualified_threads \<Rightarrow>
             (tr @ [Log Info log_filtering_finished],
              Inr qualified_threads))"

subsection \<open>\<open>execute_string_query\<close>\<close>

text \<open>
  The three lists \<open>where\<close>, \<open>replacements\<close> and \<open>match\<close> that the method builds before it
  queries the index; \<open>where\<close> is returned joined with \<open>" AND "\<close>.
\<close>

definition sphinx_match :: "params \<Rightarrow> string list" where
  "sphinx_match query =
     (if body_query query \<noteq> [] then [''@body '' @ escape_for_sphinx (body_query query)] else []) @
     (if subject_query query \<noteq> [] then [''@subject '' @ escape_for_sphinx (subject_query query)] else [])"

definition sphinx_where :: "params \<Rightarrow> string" where
  "sphinx_where query =
     str_join '' AND ''
       ((if min_date query \<noteq> 0 then [''timestamp >= %s''] else []) @
        (if max_date query \<noteq> 0 then [''timestamp <= %s''] else []) @
        (if board query \<noteq> [] \<and> board query \<noteq> ''*'' then [''board = %s''] else []) @
        (if sphinx_match query \<noteq> [] then [''MATCH(%s)''] else []))"

definition sphinx_replacements :: "params \<Rightarrow> sqlarg list" where
  "sphinx_replacements query =
     (if min_date query \<noteq> 0 then [SqlInt (min_date query)] else []) @
     (if max_date query \<noteq> 0 then [SqlInt (max_date query)] else []) @
     (if board query \<noteq> [] \<and> board query \<noteq> ''*'' then [SqlStr (board query)] else []) @
     (if sphinx_match query \<noteq> [] then [SqlStr (str_join '' '' (sphinx_match query))] else [])"

text \<open>The last statements of the method: \<open>posts = self.fetch_threads(thread_ids)\<close> and what follows.\<close>

definition string_query_fetch_threads :: "env \<Rightarrow> int list \<Rightarrow> event list \<times> (error + post list option)" where
  "string_query_fetch_threads e thread_ids =
     ([FetchThreads thread_ids,
       UpdateStatus status_collected,
       Log Info log_posts_finished],
      Inr (Some (fetch_threads e thread_ids)))"

text \<open>The method after the index has answered with \<open>posts\<close> (the part after the \<open>try\<close> statement).\<close>

definition string_query_phase2 :: "env \<Rightarrow> params \<Rightarrow> sphinx_row list \<Rightarrow> event list \<times> (error + post list option)" where
  "string_query_phase2 e query posts =
     (if posts = [] then
        ([UpdateStatus status_no_results_found], Inr None)
      else if \<not> full_thread query \<and> \<not> dense_threads query then
        (let post_ids = map sphinx_post_id posts in
           ([Log Info log_running_posts,
             FetchPosts post_ids,
             UpdateStatus status_collected,
             Log Info log_posts_finished],
            Inr (Some (fetch_posts e post_ids))))
      else
        (let thread_ids = map sphinx_thread_id posts in
           if dense_threads query \<and> body_query query \<noteq> [] then
             (let tr = [Log Info log_running_posts,
                        UpdateStatus status_filtering];
                  r = filter_dense e thread_ids (body_query query) (dense_percentage query)
                        (dense_length query)
              in case snd r of
                   Inl err \<Rightarrow> (tr @ fst r, Inl err)
                 | Inr thread_ids' \<Rightarrow>
                     if thread_ids' = [] then (tr @ fst r, Inr (Some []))
                     else (let t = string_query_fetch_threads e thread_ids'
                           in (tr @ fst r @ fst t, snd t)))
           else
             (let t = string_query_fetch_threads e thread_ids
              in (Log Info log_running_posts # fst t, snd t))))"

definition execute_string_query :: "env \<Rightarrow> params \<Rightarrow> event list \<times> (error + post list option)" where
  "execute_string_query e query =
     (let where' = sphinx_where query;
          replacements = sphinx_replacements query;
          tr = [Call ''execute_string_query'',
                UpdateStatus status_searching,
                FetchSphinx where' replacements]
      in case fetch_sphinx e where' replacements of
           Inl OperationalError \<Rightarrow>
             (tr @ [UpdateStatus status_timed_out,
                    Log Info log_timed_out,
                    SphinxClose],
              Inr None)
         | Inl (ProgrammingError err) \<Rightarrow>
             (tr @ [UpdateStatus status_error,
                    Log Error log_crash,
                    SphinxClose],
              Inr None)
         | Inr posts \<Rightarrow>
             (let r = string_query_phase2 e query posts
              in (tr @ [Log Info log_sphinx_finished,
                        UpdateStatus (status_found (length posts)),
                        SphinxClose] @ fst r,
                  snd r)))"

subsection \<open>\<open>execute_random_query\<close>\<close>

definition random_sql :: "env \<Rightarrow> params \<Rightarrow> string" where
  "random_sql e query =
     (if max_date query > 0
      then ''SELECT id FROM posts_'' @ prefix e @ '' WHERE timestamp >= %s AND timestamp <= %s ORDER BY random() LIMIT %s;''
      else ''SELECT id FROM posts_'' @ prefix e @ '' WHERE timestamp >= %s ORDER BY random() LIMIT %s;'')"

definition random_args :: "params \<Rightarrow> int \<Rightarrow> sqlarg list" where
  "random_args query random_amount' =
     (if max_date query > 0
      then [SqlInt (min_date query), SqlInt (max_date query), SqlInt random_amount']
      else [SqlInt (min_date query), SqlInt random_amount'])"

definition execute_random_query :: "env \<Rightarrow> params \<Rightarrow> event list \<times> (error + post list option)" where
  "execute_random_query e query =
     (let tr = [Call ''execute_random_query'', UpdateStatus status_random]
      in case random_amount query of
           None \<Rightarrow> (tr, Inl (KeyError ''random_amount''))
         | Some random_amount' \<Rightarrow>
             (let sql = random_sql e query;
                  args = random_args query random_amount';
                  post_ids = map post_id (db_fetchall_posts e sql args)
              in (tr @ [DbFetchall sql args, FetchPosts post_ids, UpdateStatus status_collected],
                  Inr (Some (fetch_posts e post_ids)))))"

subsection \<open>\<open>execute_country_query\<close>\<close>

definition europe :: "string list" where
  "europe = [''GB'', ''DE'', ''NL'', ''RU'', ''FI'', ''FR'', ''RO'', ''PL'', ''SE'', ''NO'', ''ES'', ''IE'',
     ''IT'', ''SI'', ''RS'', ''DK'', ''HR'', ''GR'', ''BG'', ''BE'', ''AT'', ''HU'', ''CH'', ''PT'', ''LT'', ''CZ'',
     ''EE'', ''UY'', ''LV'', ''SK'', ''MK'', ''UA'', ''IS'', ''BA'', ''CY'', ''GE'', ''LU'', ''ME'', ''AL'', ''MD'',
     ''IM'', ''EU'', ''BY'', ''MC'', ''AX'', ''KZ'', ''AM'', ''GG'', ''JE'', ''MT'', ''FO'', ''AZ'', ''LI'', ''AD'']"

text \<open>
  The operator and the value of the predicate on \<open>country_code\<close>: set membership in the
  European codes for \<open>"europe"\<close>, equality with the code otherwise.
\<close>

definition country_operator :: "string \<Rightarrow> string" where
  "country_operator flag = (if flag = ''europe'' then ''IN'' else ''='')"

definition country_value :: "string \<Rightarrow> sqlarg" where
  "country_value flag = (if flag = ''europe'' then SqlTuple europe else SqlStr flag)"

text \<open>The selected columns: only the two ids when the threads are filtered by density afterwards.\<close>

definition country_columns :: "real \<Rightarrow> string" where
  "country_columns dense = (if dense \<noteq> 0 then ''thread_id, id'' else str_join '', '' return_cols)"

definition country_sql :: "env \<Rightarrow> params \<Rightarrow> string \<Rightarrow> string \<Rightarrow> string" where
  "country_sql e query columns operator =
     (if max_date query > 0
      then ''SELECT '' @ columns @ '' FROM posts_'' @ prefix e @ '' WHERE timestamp >= %s AND timestamp <= %s AND country_code '' @ operator @ '' %s;''
      else ''SELECT '' @ columns @ '' FROM posts_'' @ prefix e @ '' WHERE timestamp >= %s AND country_code '' @ operator @ '' %s;'')"

definition country_args :: "params \<Rightarrow> sqlarg \<Rightarrow> sqlarg list" where
  "country_args query country_flag' =
     (if max_date query > 0
      then [SqlInt (min_date query), SqlInt (max_date query), country_flag']
      else [SqlInt (min_date query), country_flag'])"

definition execute_country_query :: "env \<Rightarrow> params \<Rightarrow> event list \<times> (error + post list option)" where
  "execute_country_query e query =
     (case country_flag query of
        None \<Rightarrow> ([Call ''execute_country_query''], Inl (KeyError ''country_flag''))
      | Some flag \<Rightarrow>
          (let tr = [Call ''execute_country_query'',
                     UpdateStatus status_country];
               operator = country_operator flag;
               country_flag' = country_value flag
           in case dense_country_percentage query of
                None \<Rightarrow> (tr, Inl (KeyError ''dense_country_percentage''))
              | Some dense \<Rightarrow>
                  (let columns = country_columns dense;
                       sql = country_sql e query columns operator;
                       args = country_args query country_flag';
                       posts = db_fetchall_posts e sql args;
                       tr1 = tr @ [DbFetchall sql args]
                   in if posts = [] then (tr1, Inr (Some []))
                      else if dense \<noteq> 0 then
                        (let tr2 = tr1 @ [UpdateStatus status_filtering];
                             r = filter_dense_country e (map thread_id posts) country_flag' dense
                         in case snd r of
                              Inl err \<Rightarrow> (tr2 @ fst r, Inl err)
                            | Inr thread_ids \<Rightarrow>
                                if thread_ids = [] then (tr2 @ fst r, Inr (Some []))
                                else
                                  (let posts' = fetch_threads e thread_ids
                                   in (tr2 @ fst r @
                                       [FetchThreads thread_ids,
                                        UpdateStatus (status_country_found (length posts'))],
                                       Inr (Some posts'))))
                      else
                        (tr1 @ [UpdateStatus (status_country_found (length posts))],
                         Inr (Some posts)))))"

subsection \<open>\<open>work\<close>\<close>

text \<open>
  The statement that selects the executor: \<open>"random_amount" in query_parameters and
  query_parameters["random_amount"]\<close> is true for a present, non-zero count.
\<close>

definition run_executor :: "env \<Rightarrow> params \<Rightarrow> event list \<times> (error + post list option)" where
  "run_executor e query_parameters =
     (if random_amount query_parameters \<noteq> None \<and> random_amount query_parameters \<noteq> Some 0
      then execute_random_query e query_parameters
      else if country_flag query_parameters \<noteq> None \<and> country_flag query_parameters \<noteq> Some ''all''
      then execute_country_query e query_parameters
      else execute_string_query e query_parameters)"

definition work :: "env \<Rightarrow> event list \<times> (error + unit)" where
  "work e =
     (case DataSet e of
        None \<Rightarrow>
          ([Log Info log_nonexistent, JobFinish], Inr ())
      | Some query \<Rightarrow>
          if is_finished query then
            ([Log Info log_already_finished, JobFinish], Inr ())
          else
            (let tr = [UpdateVersion (get_software_version e), SphinxConnect,
                       Log Info log_parameters];
                 query_parameters = get_parameters query;
                 results_file = filter (\<lambda>c. c \<noteq> CHR ''*'') (get_results_path query);
                 r = run_executor e query_parameters
             in case snd r of
                  Inl err \<Rightarrow> (tr @ fst r, Inl err)
                | Inr posts \<Rightarrow>
                    (tr @ fst r @
                     (case posts of
                        None \<Rightarrow> []
                      | Some ps \<Rightarrow>
                          if ps \<noteq> [] then
                            [UpdateStatus status_writing,
                             PostsToCsv ps results_file,
                             UpdateStatus status_available]
                          else [UpdateStatus status_none_found]) @
                     [QueryFinish (case posts of None \<Rightarrow> 0 | Some ps \<Rightarrow> length ps),
                      JobFinish],
                     Inr ())))"

subsection \<open>Observations on effect lists and results\<close>

fun is_PostsToCsv :: "event \<Rightarrow> bool" where
  "is_PostsToCsv (PostsToCsv ps f) = True"
| "is_PostsToCsv ev = False"

fun is_Call :: "event \<Rightarrow> bool" where
  "is_Call (Call name) = True"
| "is_Call ev = False"

text \<open>The effects of phase 2 of the full-text search: any round trip to the relational store.\<close>

fun is_store_access :: "event \<Rightarrow> bool" where
  "is_store_access (FetchPosts ids) = True"
| "is_store_access (FetchThreads ids) = True"
| "is_store_access (DbFetchall sql args) = True"
| "is_store_access ev = False"

text \<open>Ascending order by \<open>(thread_id, id)\<close>, lexicographic.\<close>

definition post_le :: "post \<Rightarrow> post \<Rightarrow> bool" where
  "post_le p q = (thread_id p < thread_id q \<or> (thread_id p = thread_id q \<and> post_id p \<le> post_id q))"

definition ordered :: "post list \<Rightarrow> bool" where
  "ordered ps = sorted_wrt post_le ps"

subsection \<open>Concrete jobs\<close>

definition mk_post :: "int \<Rightarrow> int \<Rightarrow> post" where
  "mk_post t i = \<lparr>thread_id = t, post_id = i, timestamp = 1500000000, body = ''text'', subject = [],
     author = ''Anonymous'', image_file = [], image_md5 = [], country_code = ''NL'',
     country_name = ''Netherlands''\<rparr>"

definition mk_params :: "bool \<Rightarrow> int option \<Rightarrow> string option \<Rightarrow> params" where
  "mk_params dense ra cf = \<lparr>min_date = 1400000000, max_date = 0, board = ''pol'', body_query = ''cat'',
     subject_query = [], full_thread = False, dense_threads = dense, dense_percentage = 50,
     dense_length = 0, random_amount = ra, country_flag = cf, dense_country_percentage = Some 50\<rparr>"

text \<open>
  A job whose collaborators answer every request with the same rows: \<open>sph\<close> from the index,
  \<open>ps\<close> from every posts query, \<open>stats\<close> from the threads table.
\<close>

definition mk_env :: "(sphinx_exception + sphinx_row list) \<Rightarrow> post list \<Rightarrow> thread_row list \<Rightarrow> params \<Rightarrow> env" where
  "mk_env sph ps stats q =
     \<lparr>remote_id = ''abc123'',
      DataSet = Some \<lparr>is_finished = False, get_parameters = q, get_results_path = ''data/abc*123.csv''\<rparr>,
      get_software_version = ''1.9'',
      prefix = ''4chan'',
      fetch_sphinx = (\<lambda>w r. sph),
      fetch_posts = (\<lambda>ids. ps),
      fetch_threads = (\<lambda>ids. ps),
      db_fetchall_posts = (\<lambda>sql args. ps),
      db_fetchall_threads = (\<lambda>sql args. stats)\<rparr>"

definition one_match :: "sphinx_row list" where
  "one_match = [\<lparr>sphinx_post_id = 11, sphinx_thread_id = 1\<rparr>]"

text \<open>The example of two threads: thread 1 has 10 replies and 4 matches, thread 2 has 5 replies and 4 matches.\<close>

definition stats_AB :: "thread_row list" where
  "stats_AB = [\<lparr>thread_row_id = 1, num_replies = 10\<rparr>, \<lparr>thread_row_id = 2, num_replies = 5\<rparr>]"

definition ids_AB :: "int list" where
  "ids_AB = [1, 2, 1, 2, 2, 1, 2, 1]"

definition env_AB :: env where
  "env_AB = mk_env (Inr one_match) [] stats_AB (mk_params True None None)"

text \<open>A dense-thread search whose only matching thread has no replies.\<close>

definition env_zero_replies :: env where
  "env_zero_replies =
     mk_env (Inr one_match) [mk_post 1 11] [\<lparr>thread_row_id = 1, num_replies = 0\<rparr>] (mk_params True None None)"

text \<open>A dense-thread search in which no thread is dense enough: one match in a thread of 10 replies.\<close>

definition env_empty :: env where
  "env_empty =
     mk_env (Inr one_match) [] [\<lparr>thread_row_id = 1, num_replies = 10\<rparr>] (mk_params True None None)"

text \<open>Plain searches: the index finds nothing, times out, or crashes.\<close>

definition env_no_match :: env where
  "env_no_match = mk_env (Inr []) [mk_post 1 1] [] (mk_params False None None)"

definition env_timeout :: env where
  "env_timeout = mk_env (Inl OperationalError) [] [] (mk_params False None None)"

definition env_crash :: env where
  "env_crash = mk_env (Inl (ProgrammingError ''syntax error'')) [] [] (mk_params False None None)"

text \<open>
  A country search without density filtering. The posts table holds post 11 of thread 1 and
  post 21 of thread 2, both with country code NL; the query that \<open>execute_country_query\<close>
  builds has no \<open>ORDER BY\<close>, and the store returns post 21 first. The abstract methods
  \<open>fetch_posts\<close> and \<open>fetch_threads\<close> return their rows in ascending order.
\<close>

definition params_country :: params where
  "params_country = (mk_params False None (Some ''NL''))\<lparr>dense_country_percentage := Some 0\<rparr>"

definition env_country_unsorted :: env where
  "env_country_unsorted =
     (mk_env (Inr []) [mk_post 1 11, mk_post 2 21] [] params_country)
       \<lparr>db_fetchall_posts := (\<lambda>sql args. [mk_post 2 21, mk_post 1 11])\<rparr>"

text \<open>
  A plain search with two matches, post 21 of thread 2 and post 11 of thread 1, as the index
  ranks them; \<open>fetch_posts\<close> returns the row of each requested id, in the order of the request.
\<close>

definition two_matches :: "sphinx_row list" where
  "two_matches = [\<lparr>sphinx_post_id = 21, sphinx_thread_id = 2\<rparr>, \<lparr>sphinx_post_id = 11, sphinx_thread_id = 1\<rparr>]"

definition env_two_matches :: env where
  "env_two_matches =
     (mk_env (Inr two_matches) [] [] (mk_params False None None))
       \<lparr>fetch_posts := (\<lambda>ids. map (\<lambda>i. mk_post (i div 10) i) ids)\<rparr>"

text \<open>Jobs with a random-sample count: 0 with the country flag \<open>"all"\<close>, and 5 with a country.\<close>

definition env_zero_random :: env where
  "env_zero_random = mk_env (Inr one_match) [mk_post 1 11] [] (mk_params False (Some 0) (Some ''all''))"

definition env_random :: env where
  "env_random = mk_env (Inr one_match) [mk_post 1 11] [] (mk_params False (Some 5) (Some ''NL''))"

section \<open>Properties\<close>

subsection \<open>Escaping\<close>

lemma escape_for_sphinx_append:
  "escape_for_sphinx (xs @ ys) = escape_for_sphinx xs @ escape_for_sphinx ys"
  by (induction xs) simp_all

lemma escape_for_sphinx_plain:
  "set s \<inter> set special_chars = {} \<Longrightarrow> escape_for_sphinx s = s"
  by (induction s) auto

lemma set_special_chars:
  "set special_chars = {CHR ''='', CHR ''('', CHR '')'', CHR ''|'', CHR ''-'', CHR ''!'', CHR ''@'',
     CHR ''~'', CHR 0x22, CHR ''&'', CHR ''/'', CHR 0x5C, CHR ''^'', CHR ''$''}"
  by (auto simp: special_chars_def)

text \<open>
  C7. The escaped characters are \<open>= ( ) | - ! @ ~ " & / \ ^ $\<close>. Every occurrence of one of
  them, at any position of the input, is replaced by one backslash followed by the
  character, and every occurrence of another character is copied: the rest of the output
  is the escaping of what stands before and after the occurrence. A string that contains
  none of these characters is returned unchanged.
\<close>

theorem escape_for_sphinx_occurrences:
  "set special_chars = {CHR ''='', CHR ''('', CHR '')'', CHR ''|'', CHR ''-'', CHR ''!'', CHR ''@'',
       CHR ''~'', CHR 0x22, CHR ''&'', CHR ''/'', CHR 0x5C, CHR ''^'', CHR ''$''}
   \<and> (c \<in> set special_chars \<longrightarrow>
        escape_for_sphinx (xs @ c # ys) = escape_for_sphinx xs @ CHR 0x5C # c # escape_for_sphinx ys)
   \<and> (c \<notin> set special_chars \<longrightarrow>
        escape_for_sphinx (xs @ c # ys) = escape_for_sphinx xs @ c # escape_for_sphinx ys)
   \<and> (set s \<inter> set special_chars = {} \<longrightarrow> escape_for_sphinx s = s)"
proof (intro conjI impI)
  show "set special_chars = {CHR ''='', CHR ''('', CHR '')'', CHR ''|'', CHR ''-'', CHR ''!'', CHR ''@'',
       CHR ''~'', CHR 0x22, CHR ''&'', CHR ''/'', CHR 0x5C, CHR ''^'', CHR ''$''}"
    by (rule set_special_chars)
next
  assume "c \<in> set special_chars"
  then show "escape_for_sphinx (xs @ c # ys) = escape_for_sphinx xs @ CHR 0x5C # c # escape_for_sphinx ys"
    by (simp add: escape_for_sphinx_append backslash_def)
next
  assume "c \<notin> set special_chars"
  then show "escape_for_sphinx (xs @ c # ys) = escape_for_sphinx xs @ c # escape_for_sphinx ys"
    by (simp add: escape_for_sphinx_append)
next
  assume "set s \<inter> set special_chars = {}"
  then show "escape_for_sphinx s = s"
    by (rule escape_for_sphinx_plain)
qed

theorem escape_for_sphinx_occurrences_witness:
  "escape_for_sphinx ''a(b'' = [CHR ''a'', CHR 0x5C, CHR ''('', CHR ''b'']
   \<and> escape_for_sphinx ''a-b'' = [CHR ''a'', CHR 0x5C, CHR ''-'', CHR ''b'']
   \<and> escape_for_sphinx ''cats and dogs'' = ''cats and dogs''"
  using escape_for_sphinx_occurrences [of "CHR ''(''" "''a''" "''b''" "''cats and dogs''"]
    escape_for_sphinx_occurrences [of "CHR ''-''" "''a''" "''b''" "''cats and dogs''"]
  by (simp add: special_chars_def backslash_def)

subsection \<open>Dense-thread filters\<close>

lemma filter_dense_loop_distinct:
  "filter_dense_loop kp p l rows acc = Inr out \<Longrightarrow> distinct (acc @ map thread_row_id rows) \<Longrightarrow>
     distinct out"
  by (induction rows arbitrary: acc) (auto split: if_splits simp: Let_def)

lemma filter_dense_country_loop_distinct:
  "filter_dense_country_loop kp p rows acc = Inr out \<Longrightarrow> distinct (acc @ map thread_row_id rows) \<Longrightarrow>
     distinct out"
  by (induction rows arbitrary: acc) (auto split: if_splits simp: Let_def)

lemma filter_dense_loops_agree:
  "\<forall>r \<in> set rows. 0 \<le> num_replies r \<Longrightarrow>
     filter_dense_country_loop kp p rows acc = filter_dense_loop kp p 0 rows acc"
  by (induction rows arbitrary: acc) (auto simp: Let_def)

text \<open>
  C2. A thread whose reply count is 0 makes both filters raise \<open>ZeroDivisionError\<close>: the
  keyword variant with minimum length 0 and the country variant divide by the reply count
  without a test. Only a positive minimum length makes the keyword variant skip the thread.
  In the job of \<open>env_zero_replies\<close> the exception leaves \<open>work\<close>, and neither the data set nor
  the job is finished.
\<close>

theorem filter_dense_zero_replies_raises:
  "snd (filter_dense env_zero_replies [1] ''cat'' 50 0) = Inl ZeroDivisionError
   \<and> snd (filter_dense_country env_zero_replies [1] (SqlStr ''NL'') 50) = Inl ZeroDivisionError
   \<and> snd (filter_dense env_zero_replies [1] ''cat'' 50 1) = Inr []
   \<and> snd (work env_zero_replies) = Inl ZeroDivisionError
   \<and> JobFinish \<notin> set (fst (work env_zero_replies))"
  by (simp add: env_zero_replies_def mk_env_def mk_params_def one_match_def work_def
      run_executor_def execute_string_query_def string_query_phase2_def filter_dense_def
      filter_dense_country_def Counter_def Let_def)

text \<open>
  C9. When every reply count that the threads table returns is non-negative, the country
  variant returns what the keyword variant returns for the minimum length 0, whatever the
  thread ids and the percentage: the same list of threads, or the same exception.
\<close>

theorem filter_dense_country_eq_filter_dense_0:
  assumes "\<forall>r \<in> set (db_fetchall_threads e (thread_stats_sql e) [SqlTuple (map str_int thread_ids)]).
             0 \<le> num_replies r"
  shows "snd (filter_dense_country e thread_ids country percentage) =
         snd (filter_dense e thread_ids keyword percentage 0)"
  using filter_dense_loops_agree [OF assms]
  by (simp add: filter_dense_def filter_dense_country_def Let_def split: sum.splits)

theorem filter_dense_country_eq_filter_dense_0_witness:
  "snd (filter_dense_country env_AB ids_AB (SqlStr ''NL'') 50) = snd (filter_dense env_AB ids_AB ''cat'' 50 0)
   \<and> snd (filter_dense env_AB ids_AB ''cat'' 50 0) = Inr [2]"
proof -
  have h: "\<forall>r \<in> set (db_fetchall_threads env_AB (thread_stats_sql env_AB) [SqlTuple (map str_int ids_AB)]).
             0 \<le> num_replies r"
    by (simp add: env_AB_def mk_env_def stats_AB_def)
  have v: "snd (filter_dense env_AB ids_AB ''cat'' 50 0) = Inr [2]"
    by (simp add: filter_dense_def env_AB_def mk_env_def stats_AB_def ids_AB_def Counter_def Let_def)
  show ?thesis
    using filter_dense_country_eq_filter_dense_0 [OF h, of "SqlStr ''NL''" 50 "''cat''"] v by simp
qed

text \<open>
  C10. When the threads table returns every thread id at most once, the list returned by
  either filter has no duplicates, however often a thread id occurs in the input list.
\<close>

theorem dense_filters_no_duplicates:
  assumes "distinct (map thread_row_id
             (db_fetchall_threads e (thread_stats_sql e) [SqlTuple (map str_int thread_ids)]))"
  shows "(snd (filter_dense e thread_ids keyword percentage length') = Inr out \<longrightarrow> distinct out)
       \<and> (snd (filter_dense_country e thread_ids country percentage) = Inr out' \<longrightarrow> distinct out')"
  using assms
  by (auto simp: filter_dense_def filter_dense_country_def Let_def split: sum.splits
      dest: filter_dense_loop_distinct filter_dense_country_loop_distinct)

theorem dense_filters_no_duplicates_witness:
  "snd (filter_dense env_AB ids_AB ''cat'' 50 0) = Inr [2]
   \<and> snd (filter_dense_country env_AB ids_AB (SqlStr ''NL'') 50) = Inr [2]
   \<and> distinct [2 :: int]"
proof -
  have h: "distinct (map thread_row_id
             (db_fetchall_threads env_AB (thread_stats_sql env_AB) [SqlTuple (map str_int ids_AB)]))"
    by (simp add: env_AB_def mk_env_def stats_AB_def)
  have v: "snd (filter_dense env_AB ids_AB ''cat'' 50 0) = Inr [2]"
    "snd (filter_dense_country env_AB ids_AB (SqlStr ''NL'') 50) = Inr [2]"
    by (simp_all add: filter_dense_def filter_dense_country_def env_AB_def mk_env_def stats_AB_def
        ids_AB_def Counter_def Let_def)
  show ?thesis
    using dense_filters_no_duplicates [OF h, of "''cat''" 50 0 "[2]" "SqlStr ''NL''" "[2]"] v by simp
qed

subsection \<open>Effects of the executors\<close>

lemma filter_dense_effects:
  "filter is_Call (fst (filter_dense e t k p l)) = []"
  "filter is_PostsToCsv (fst (filter_dense e t k p l)) = []"
  by (simp_all add: filter_dense_def Let_def split: sum.splits)

lemma filter_dense_country_effects:
  "filter is_Call (fst (filter_dense_country e t c p)) = []"
  "filter is_PostsToCsv (fst (filter_dense_country e t c p)) = []"
  by (simp_all add: filter_dense_country_def Let_def split: sum.splits)

lemma string_query_phase2_effects:
  "filter is_Call (fst (string_query_phase2 e q posts)) = []"
  "filter is_PostsToCsv (fst (string_query_phase2 e q posts)) = []"
  by (simp_all add: string_query_phase2_def string_query_fetch_threads_def Let_def
      filter_dense_effects split: sum.splits)

lemma execute_string_query_effects:
  "filter is_Call (fst (execute_string_query e q)) = [Call ''execute_string_query'']"
  "filter is_PostsToCsv (fst (execute_string_query e q)) = []"
  by (simp_all add: execute_string_query_def Let_def string_query_phase2_effects
      split: sum.splits sphinx_exception.splits)

lemma execute_random_query_effects:
  "filter is_Call (fst (execute_random_query e q)) = [Call ''execute_random_query'']"
  "filter is_PostsToCsv (fst (execute_random_query e q)) = []"
  by (simp_all add: execute_random_query_def Let_def split: option.splits)

lemma execute_country_query_effects:
  "filter is_Call (fst (execute_country_query e q)) = [Call ''execute_country_query'']"
  "filter is_PostsToCsv (fst (execute_country_query e q)) = []"
  by (simp_all add: execute_country_query_def Let_def filter_dense_country_effects
      split: option.splits sum.splits)

lemma run_executor_no_csv:
  "filter is_PostsToCsv (fst (run_executor e q)) = []"
  by (simp add: run_executor_def execute_string_query_effects execute_random_query_effects
      execute_country_query_effects)

lemma run_executor_calls:
  "filter is_Call (fst (run_executor e q)) =
     [Call (if random_amount q \<noteq> None \<and> random_amount q \<noteq> Some 0 then ''execute_random_query''
            else if country_flag q \<noteq> None \<and> country_flag q \<noteq> Some ''all'' then ''execute_country_query''
            else ''execute_string_query'')]"
  by (simp add: run_executor_def execute_string_query_effects execute_random_query_effects
      execute_country_query_effects)

subsection \<open>The outcome of a job\<close>

text \<open>
  C1 as stated fails: in the job of \<open>env_empty\<close> the executor returns the
  empty list, and \<open>work\<close> writes no result file.
\<close>

theorem work_empty_result_counterexample:
  "snd (run_executor env_empty (mk_params True None None)) = Inr (Some [])
   \<and> \<not> list_ex is_PostsToCsv (fst (work env_empty))"
  by (simp add: env_empty_def mk_env_def mk_params_def one_match_def work_def run_executor_def
      execute_string_query_def string_query_phase2_def filter_dense_def Counter_def Let_def)

text \<open>
  C1 (amended). For a job whose data set exists and is not finished, and whose executor
  returns the empty list or \<open>None\<close>: \<open>work\<close> adds, after the effects of the executor, the
  status "Query finished, no results found." for the empty list and nothing for \<open>None\<close>,
  then finishes the data set with row count 0 and finishes the job. In both cases no
  result file is written.
\<close>

theorem work_empty_or_null_result:
  assumes "DataSet e = Some query" and "\<not> is_finished query"
    and "snd (run_executor e (get_parameters query)) = Inr posts"
    and "posts = None \<or> posts = Some []"
  shows "fst (work e) =
           [UpdateVersion (get_software_version e), SphinxConnect, Log Info log_parameters]
           @ fst (run_executor e (get_parameters query))
           @ (if posts = Some [] then [UpdateStatus status_none_found] else [])
           @ [QueryFinish 0, JobFinish]
       \<and> filter is_PostsToCsv (fst (work e)) = []
       \<and> snd (work e) = Inr ()"
proof -
  have tr: "fst (work e) =
           [UpdateVersion (get_software_version e), SphinxConnect, Log Info log_parameters]
           @ fst (run_executor e (get_parameters query))
           @ (if posts = Some [] then [UpdateStatus status_none_found] else [])
           @ [QueryFinish 0, JobFinish]"
    using assms by (auto simp: work_def Let_def)
  have "filter is_PostsToCsv (fst (work e)) = []"
    unfolding tr by (simp add: run_executor_no_csv)
  moreover have "snd (work e) = Inr ()"
    using assms by (auto simp: work_def Let_def)
  ultimately show ?thesis using tr by simp
qed

theorem work_empty_or_null_result_witness:
  "fst (work env_empty) =
           [UpdateVersion ''1.9'', SphinxConnect, Log Info log_parameters]
           @ fst (run_executor env_empty (mk_params True None None))
           @ [UpdateStatus status_none_found, QueryFinish 0, JobFinish]
       \<and> filter is_PostsToCsv (fst (work env_empty)) = []
       \<and> snd (work env_empty) = Inr ()"
proof -
  have 1: "DataSet env_empty = Some \<lparr>is_finished = False, get_parameters = mk_params True None None,
             get_results_path = ''data/abc*123.csv''\<rparr>"
    by (simp add: env_empty_def mk_env_def)
  have 2: "snd (run_executor env_empty (mk_params True None None)) = Inr (Some [])"
    by (simp add: env_empty_def mk_env_def mk_params_def one_match_def run_executor_def
        execute_string_query_def string_query_phase2_def filter_dense_def Counter_def Let_def)
  have 3: "get_software_version env_empty = ''1.9''"
    by (simp add: env_empty_def mk_env_def)
  show ?thesis
    using work_empty_or_null_result [OF 1, of "Some []"] 2 3 by auto
qed

subsection \<open>Selection of the executor\<close>

text \<open>
  C5 as stated fails: in the job of \<open>env_zero_random\<close> a random-sample count
  is present (it is 0) and the country flag is \<open>"all"\<close>, and the full-text executor runs.
\<close>

theorem zero_random_amount_counterexample:
  "random_amount (mk_params False (Some 0) (Some ''all'')) \<noteq> None
   \<and> DataSet env_zero_random = Some \<lparr>is_finished = False,
        get_parameters = mk_params False (Some 0) (Some ''all''), get_results_path = ''data/abc*123.csv''\<rparr>
   \<and> filter is_Call (fst (work env_zero_random)) = [Call ''execute_string_query'']"
  by (simp add: env_zero_random_def mk_env_def mk_params_def one_match_def work_def run_executor_def
      execute_string_query_def string_query_phase2_def Let_def)

text \<open>
  C5 (amended). A job whose data set exists and is not finished calls exactly one executor:
  the random-sample executor when a random-sample count is present and not 0, otherwise
  the country executor when a country flag other than \<open>"all"\<close> is present, otherwise the
  full-text executor.
\<close>

theorem exactly_one_executor:
  assumes "DataSet e = Some query" and "\<not> is_finished query"
  shows "filter is_Call (fst (work e)) =
     [Call (if random_amount (get_parameters query) \<noteq> None \<and> random_amount (get_parameters query) \<noteq> Some 0
            then ''execute_random_query''
            else if country_flag (get_parameters query) \<noteq> None
                    \<and> country_flag (get_parameters query) \<noteq> Some ''all''
            then ''execute_country_query''
            else ''execute_string_query'')]"
  using assms run_executor_calls [of e "get_parameters query"]
  by (simp add: work_def Let_def split: sum.splits option.splits)

theorem exactly_one_executor_witness:
  "filter is_Call (fst (work env_random)) = [Call ''execute_random_query'']"
proof -
  have 1: "DataSet env_random = Some \<lparr>is_finished = False,
             get_parameters = mk_params False (Some 5) (Some ''NL''), get_results_path = ''data/abc*123.csv''\<rparr>"
    by (simp add: env_random_def mk_env_def)
  show ?thesis using exactly_one_executor [OF 1] by (simp add: mk_params_def)
qed

lemma sphinx_query_random_amount:
  "sphinx_where (q\<lparr>random_amount := x\<rparr>) = sphinx_where q"
  "sphinx_replacements (q\<lparr>random_amount := x\<rparr>) = sphinx_replacements q"
  by (simp_all add: sphinx_where_def sphinx_replacements_def sphinx_match_def
      cong: if_cong split del: if_split)

lemma string_query_phase2_random_amount:
  "string_query_phase2 e (q\<lparr>random_amount := x\<rparr>) posts = string_query_phase2 e q posts"
  by (simp add: string_query_phase2_def Let_def cong: if_cong sum.case_cong split del: if_split)

lemma country_query_random_amount:
  "country_sql e (q\<lparr>random_amount := x\<rparr>) c operator = country_sql e q c operator"
  "country_args (q\<lparr>random_amount := x\<rparr>) v = country_args q v"
  by (simp_all add: country_sql_def country_args_def cong: if_cong split del: if_split)

lemma executors_random_amount:
  "execute_string_query e (q\<lparr>random_amount := x\<rparr>) = execute_string_query e q"
  "execute_country_query e (q\<lparr>random_amount := x\<rparr>) = execute_country_query e q"
  by (simp_all add: execute_string_query_def execute_country_query_def sphinx_query_random_amount
      string_query_phase2_random_amount country_query_random_amount Let_def
      cong: if_cong sum.case_cong option.case_cong split del: if_split)

text \<open>
  C8. With a random-sample count of 0 the random-sample executor is not selected: the
  country executor runs when a country flag other than \<open>"all"\<close> is present, the full-text
  executor otherwise, exactly as if the count were absent.
\<close>

theorem zero_random_amount_falls_through:
  assumes "random_amount q = Some 0"
  shows "run_executor e q =
           (if country_flag q \<noteq> None \<and> country_flag q \<noteq> Some ''all''
            then execute_country_query e q else execute_string_query e q)
       \<and> run_executor e q = run_executor e (q\<lparr>random_amount := None\<rparr>)"
  using assms by (simp add: run_executor_def executors_random_amount)

theorem zero_random_amount_falls_through_witness:
  "run_executor env_zero_random (mk_params False (Some 0) (Some ''all'')) =
     execute_string_query env_zero_random (mk_params False (Some 0) (Some ''all''))
   \<and> run_executor env_zero_random (mk_params False (Some 0) (Some ''NL'')) =
     execute_country_query env_zero_random (mk_params False (Some 0) (Some ''NL''))"
  using zero_random_amount_falls_through [of "mk_params False (Some 0) (Some ''all'')" env_zero_random]
    zero_random_amount_falls_through [of "mk_params False (Some 0) (Some ''NL'')" env_zero_random]
  by (simp add: mk_params_def)

subsection \<open>The full-text executor\<close>

text \<open>
  C4. When the index returns no match, the full-text executor returns \<open>None\<close>: its last
  effect is the status "Query finished, but no results were found.", and it makes no round
  trip to the relational store. When the index returns matches, dense threads are
  requested with a body query, and \<open>filter_dense\<close> returns no thread, the executor returns
  the empty list, not \<open>None\<close>.
\<close>

theorem full_text_null_versus_empty:
  "(fetch_sphinx e (sphinx_where q) (sphinx_replacements q) = Inr [] \<longrightarrow>
      snd (execute_string_query e q) = Inr None
      \<and> filter is_store_access (fst (execute_string_query e q)) = []
      \<and> last (fst (execute_string_query e q)) = UpdateStatus status_no_results_found)
   \<and> (fetch_sphinx e (sphinx_where q) (sphinx_replacements q) = Inr posts \<and> posts \<noteq> []
        \<and> dense_threads q \<and> body_query q \<noteq> []
        \<and> snd (filter_dense e (map sphinx_thread_id posts) (body_query q) (dense_percentage q)
                 (dense_length q)) = Inr [] \<longrightarrow>
      snd (execute_string_query e q) = Inr (Some []))"
  by (simp add: execute_string_query_def string_query_phase2_def Let_def)

theorem full_text_null_versus_empty_witness:
  "snd (execute_string_query env_no_match (mk_params False None None)) = Inr None
   \<and> filter is_store_access (fst (execute_string_query env_no_match (mk_params False None None))) = []
   \<and> snd (execute_string_query env_empty (mk_params True None None)) = Inr (Some [])"
proof -
  have 1: "fetch_sphinx env_no_match (sphinx_where (mk_params False None None))
             (sphinx_replacements (mk_params False None None)) = Inr []"
    by (simp add: env_no_match_def mk_env_def)
  have 2: "fetch_sphinx env_empty (sphinx_where (mk_params True None None))
             (sphinx_replacements (mk_params True None None)) = Inr one_match"
    by (simp add: env_empty_def mk_env_def)
  have 3: "one_match \<noteq> []" "dense_threads (mk_params True None None)"
    "body_query (mk_params True None None) \<noteq> []"
    by (simp_all add: one_match_def mk_params_def)
  have 4: "snd (filter_dense env_empty (map sphinx_thread_id one_match)
                  (body_query (mk_params True None None)) (dense_percentage (mk_params True None None))
                  (dense_length (mk_params True None None))) = Inr []"
    by (simp add: env_empty_def mk_env_def mk_params_def one_match_def filter_dense_def Counter_def
        Let_def)
  show ?thesis
    using full_text_null_versus_empty [of env_no_match "mk_params False None None" one_match]
      full_text_null_versus_empty [of env_empty "mk_params True None None" one_match] 1 2 3 4
    by blast
qed

text \<open>
  C6. When the index query raises \<open>OperationalError\<close> (a timeout), the executor sets the
  status to the guidance about too many posts, logs at info level, closes the index
  connection as its last effect and returns \<open>None\<close>. When the query raises
  \<open>ProgrammingError\<close> (a crash), it sets the status to the message that the admins have been
  notified, logs at error level, closes the index connection as its last effect and returns
  \<open>None\<close>. The two status texts differ.
\<close>

theorem sphinx_failures_classified:
  "(fetch_sphinx e (sphinx_where q) (sphinx_replacements q) = Inl OperationalError \<longrightarrow>
      execute_string_query e q =
        ([Call ''execute_string_query'', UpdateStatus status_searching,
          FetchSphinx (sphinx_where q) (sphinx_replacements q),
          UpdateStatus status_timed_out, Log Info log_timed_out, SphinxClose],
         Inr None))
   \<and> (fetch_sphinx e (sphinx_where q) (sphinx_replacements q) = Inl (ProgrammingError err) \<longrightarrow>
      execute_string_query e q =
        ([Call ''execute_string_query'', UpdateStatus status_searching,
          FetchSphinx (sphinx_where q) (sphinx_replacements q),
          UpdateStatus status_error, Log Error log_crash, SphinxClose],
         Inr None))
   \<and> status_timed_out \<noteq> status_error"
  by (simp add: execute_string_query_def Let_def status_timed_out_def status_error_def)

theorem sphinx_failures_classified_witness:
  "snd (execute_string_query env_timeout (mk_params False None None)) = Inr None
   \<and> last (fst (execute_string_query env_timeout (mk_params False None None))) = SphinxClose
   \<and> Log Info log_timed_out \<in> set (fst (execute_string_query env_timeout (mk_params False None None)))
   \<and> snd (execute_string_query env_crash (mk_params False None None)) = Inr None
   \<and> last (fst (execute_string_query env_crash (mk_params False None None))) = SphinxClose
   \<and> Log Error log_crash \<in> set (fst (execute_string_query env_crash (mk_params False None None)))"
proof -
  have 1: "fetch_sphinx env_timeout (sphinx_where (mk_params False None None))
             (sphinx_replacements (mk_params False None None)) = Inl OperationalError"
    by (simp add: env_timeout_def mk_env_def)
  have 2: "fetch_sphinx env_crash (sphinx_where (mk_params False None None))
             (sphinx_replacements (mk_params False None None)) = Inl (ProgrammingError ''syntax error'')"
    by (simp add: env_crash_def mk_env_def)
  show ?thesis
    using sphinx_failures_classified [of env_timeout "mk_params False None None" "''syntax error''"]
      sphinx_failures_classified [of env_crash "mk_params False None None" "''syntax error''"] 1 2
    by simp
qed

subsection \<open>Order of the returned posts\<close>

text \<open>
  C3. The posts that an executor returns are not always in ascending order by
  \<open>(thread_id, id)\<close>: no executor sorts. In the job of \<open>env_country_unsorted\<close> the country
  executor runs one query on the posts table, whose text it builds itself without an
  \<open>ORDER BY\<close>, and returns the rows as the store delivered them, post 21 of thread 2 before
  post 11 of thread 1; \<open>work\<close> hands them to the result writer in that order. In the job of
  \<open>env_two_matches\<close> the full-text executor returns the rows in the order of \<open>fetch_posts\<close>,
  again thread 2 before thread 1.
\<close>

theorem executors_return_unsorted_posts:
  "execute_country_query env_country_unsorted params_country =
     ([Call ''execute_country_query'', UpdateStatus status_country,
       DbFetchall
         ''SELECT thread_id, id, timestamp, body, subject, author, image_file, image_md5, country_code, country_name FROM posts_4chan WHERE timestamp >= %s AND country_code = %s;''
         [SqlInt 1400000000, SqlStr ''NL''],
       UpdateStatus (status_country_found 2)],
      Inr (Some [mk_post 2 21, mk_post 1 11]))
   \<and> \<not> ordered [mk_post 2 21, mk_post 1 11]
   \<and> PostsToCsv [mk_post 2 21, mk_post 1 11] ''data/abc123.csv'' \<in> set (fst (work env_country_unsorted))
   \<and> snd (execute_string_query env_two_matches (mk_params False None None)) =
       Inr (Some [mk_post 2 21, mk_post 1 11])"
proof -
  have c: "execute_country_query env_country_unsorted params_country =
     ([Call ''execute_country_query'', UpdateStatus status_country,
       DbFetchall
         ''SELECT thread_id, id, timestamp, body, subject, author, image_file, image_md5, country_code, country_name FROM posts_4chan WHERE timestamp >= %s AND country_code = %s;''
         [SqlInt 1400000000, SqlStr ''NL''],
       UpdateStatus (status_country_found 2)],
      Inr (Some [mk_post 2 21, mk_post 1 11]))"
    by (simp add: execute_country_query_def env_country_unsorted_def params_country_def mk_env_def
        mk_params_def country_operator_def country_value_def country_columns_def country_sql_def
        country_args_def return_cols_def Let_def numeral_2_eq_2)
  have o: "\<not> ordered [mk_post 2 21, mk_post 1 11]"
    by (simp add: ordered_def post_le_def mk_post_def)
  have d: "DataSet env_country_unsorted =
             Some \<lparr>is_finished = False, get_parameters = params_country,
                   get_results_path = ''data/abc*123.csv''\<rparr>"
    by (simp add: env_country_unsorted_def mk_env_def)
  have r: "run_executor env_country_unsorted params_country =
             execute_country_query env_country_unsorted params_country"
    by (simp add: run_executor_def params_country_def mk_params_def)
  have w: "PostsToCsv [mk_post 2 21, mk_post 1 11] ''data/abc123.csv'' \<in> set (fst (work env_country_unsorted))"
    by (simp add: work_def d r c Let_def)
  have f: "snd (execute_string_query env_two_matches (mk_params False None None)) =
             Inr (Some [mk_post 2 21, mk_post 1 11])"
    by (simp add: execute_string_query_def string_query_phase2_def env_two_matches_def mk_env_def
        mk_params_def two_matches_def Let_def)
  from c o w f show ?thesis by blast
qed

end
